theory Spec2Isabelle
  imports Main "HOL-Library.Word"
begin

unbundle bit_operations_syntax

section \<open>Basic types\<close>

type_synonym quint8 = "8 word"
type_synonym quint32 = "32 word"
type_synonym quint64 = "64 word"

text \<open>A QByteArray is its sequence of bytes.\<close>

type_synonym QByteArray = "quint8 list"

text \<open>
  Output of qDebug, qWarning and qCInfo: the functions below return the lines they
  write, tagged with the Qt message type, so that a log line is an observable result.
\<close>

datatype QtMsgType = QtDebugMsg | QtWarningMsg | QtInfoMsg

type_synonym LogLine = "QtMsgType \<times> string"

section \<open>DataStorage.cpp: the client data store\<close>

subsection \<open>Data\<close>

text \<open>
  The TL structures and the public value types are declared in headers that are not
  among the sources (TLTypes.hpp, TLValues.hpp, TelegramNamespace.hpp). The records
  below carry the fields DataStorage.cpp reads and writes. A flags field is the set of
  its enumerators: \<open>flags & X\<close> is \<open>X \<in> flags\<close> and \<open>flags |= X\<close> adds \<open>X\<close>.
\<close>

text \<open>
  Peer::Type. In toInputPeer the switch names User, Chat and Channel and has a default
  branch for any other value; \<open>PeerTypeOther\<close> stands for such a value.
\<close>

datatype PeerType = User | Chat | Channel | PeerTypeOther

record Peer =
  Peer_type :: PeerType
  Peer_id :: quint32

text \<open>The enumerators of TLValue that DataStorage.cpp and the peer conversions name.\<close>

datatype TLValue =
    PeerUser | PeerChat | PeerChannel
  | InputPeerEmpty | InputPeerSelf | InputPeerChat | InputPeerUser | InputPeerChannel

record TLPeer =
  TLPeer_tlType :: TLValue
  TLPeer_userId :: quint32
  TLPeer_chatId :: quint32
  TLPeer_channelId :: quint32

record TLInputPeer =
  TLInputPeer_tlType :: TLValue
  TLInputPeer_chatId :: quint32
  TLInputPeer_userId :: quint32
  TLInputPeer_accessHash :: quint64
  TLInputPeer_channelId :: quint32

text \<open>
  Modelled from the spec: the default-constructed TLInputPeer (its constructor is in
  TLTypes.hpp, not among the sources): an InputPeer that resolves nothing, with the
  empty type tag and no id or access hash.
\<close>

definition TLInputPeer_new :: TLInputPeer where
  "TLInputPeer_new =
     \<lparr>TLInputPeer_tlType = InputPeerEmpty, TLInputPeer_chatId = 0, TLInputPeer_userId = 0,
      TLInputPeer_accessHash = 0, TLInputPeer_channelId = 0\<rparr>"

datatype TLUser_Flag = TLUser_Self

record TLUser =
  TLUser_id :: quint32
  TLUser_accessHash :: quint64
  TLUser_flags :: "TLUser_Flag set"

text \<open>
  Modelled from the spec: TLUser::self() (TLTypes.hpp, not among the sources), the
  \<open>is_self\<close> of a user record: whether the Self flag is among the flags.
\<close>

definition TLUser_self :: "TLUser \<Rightarrow> bool" where
  "TLUser_self user = (TLUser_Self \<in> TLUser_flags user)"

record TLChat =
  TLChat_id :: quint32
  TLChat_accessHash :: quint64

datatype TLMessageFwdHeader_Flag = TLMessageFwdHeader_FromId

record TLMessageFwdHeader =
  TLMessageFwdHeader_flags :: "TLMessageFwdHeader_Flag set"
  TLMessageFwdHeader_fromId :: quint32

datatype TLMessage_Flag = TLMessage_Out | TLMessage_FwdFrom

record TLMessage =
  TLMessage_id :: quint32
  TLMessage_flags :: "TLMessage_Flag set"
  TLMessage_fromId :: quint32
  TLMessage_toId :: TLPeer
  TLMessage_date :: quint32
  TLMessage_message :: string
  TLMessage_fwdFrom :: TLMessageFwdHeader

text \<open>
  Modelled from the spec: TLMessage::out() (TLTypes.hpp, not among the sources): whether
  the Out flag, which marks a message the account sent, is among the flags.
\<close>

definition TLMessage_out :: "TLMessage \<Rightarrow> bool" where
  "TLMessage_out m = (TLMessage_Out \<in> TLMessage_flags m)"

text \<open>
  Modelled from the spec: the default-constructed TLMessage that processData inserts
  before it assigns the ingested message over it (constructor in TLTypes.hpp, not among
  the sources): every number zero, no flag, empty text.
\<close>

definition TLMessage_new :: TLMessage where
  "TLMessage_new =
     \<lparr>TLMessage_id = 0, TLMessage_flags = {}, TLMessage_fromId = 0,
      TLMessage_toId = \<lparr>TLPeer_tlType = PeerUser, TLPeer_userId = 0, TLPeer_chatId = 0,
                        TLPeer_channelId = 0\<rparr>,
      TLMessage_date = 0, TLMessage_message = [],
      TLMessage_fwdFrom = \<lparr>TLMessageFwdHeader_flags = {}, TLMessageFwdHeader_fromId = 0\<rparr>\<rparr>"

record TLDialog =
  TLDialog_peer :: TLPeer
  TLDialog_topMessage :: quint32

record TLMessagesDialogs =
  TLMessagesDialogs_dialogs :: "TLDialog list"

text \<open>The public message value that getMessage fills in.\<close>

datatype MessageType = MessageTypeText | MessageTypeOther

datatype MessageFlag = MessageFlagOut | MessageFlagForwarded

definition MessageFlagNone :: "MessageFlag set" where
  "MessageFlagNone = {}"

record Message =
  Message_type :: MessageType
  Message_fromId :: quint32
  Message_timestamp :: quint32
  Message_text :: string
  Message_flags :: "MessageFlag set"
  Message_forwardFromPeer :: Peer

text \<open>
  DataInternalApi. The hashes of the source map a key to a pointer to an object the
  store allocated for that key alone, so no two keys share an object and a map from
  keys to values has the same contents; a missing key reads as the null pointer
  (\<open>None\<close>).
\<close>

record DataInternalApi =
  m_selfUserId :: quint32
  m_users :: "quint32 \<rightharpoonup> TLUser"
  m_chats :: "quint32 \<rightharpoonup> TLChat"
  m_clientMessages :: "quint32 \<rightharpoonup> TLMessage"
  m_channelMessages :: "quint64 \<rightharpoonup> TLMessage"
  m_dialogs :: TLMessagesDialogs

subsection \<open>Keys of channel messages\<close>

text \<open>
  \<open>quint64 key = channelId; return (key << 32) + messageId;\<close>
\<close>

definition channelMessageToKey :: "quint32 \<Rightarrow> quint32 \<Rightarrow> quint64" where
  "channelMessageToKey channelId messageId =
     (let key = (ucast channelId :: quint64) in push_bit 32 key + ucast messageId)"

subsection \<open>Ingest\<close>

text \<open>processData(const TLMessage &).\<close>

definition processData_TLMessage :: "DataInternalApi \<Rightarrow> TLMessage \<Rightarrow> DataInternalApi" where
  "processData_TLMessage d message =
     (if TLPeer_tlType (TLMessage_toId message) = PeerChannel then
        (let key = channelMessageToKey (TLPeer_channelId (TLMessage_toId message))
                     (TLMessage_id message);
             inserted = (if m_channelMessages d key = None
                         then (m_channelMessages d)(key \<mapsto> TLMessage_new)
                         else m_channelMessages d)
         in d\<lparr>m_channelMessages := inserted(key \<mapsto> message)\<rparr>)
      else
        (let key = TLMessage_id message;
             inserted = (if m_clientMessages d key = None
                         then (m_clientMessages d)(key \<mapsto> TLMessage_new)
                         else m_clientMessages d)
         in d\<lparr>m_clientMessages := inserted(key \<mapsto> message)\<rparr>))"

text \<open>processData(const TLChat &): a new object for a new id, assignment otherwise.\<close>

definition processData_TLChat :: "DataInternalApi \<Rightarrow> TLChat \<Rightarrow> DataInternalApi" where
  "processData_TLChat d chat =
     (if m_chats d (TLChat_id chat) = None then
        d\<lparr>m_chats := (m_chats d)(TLChat_id chat \<mapsto> chat)\<rparr>
      else
        d\<lparr>m_chats := (m_chats d)(TLChat_id chat \<mapsto> chat)\<rparr>)"

text \<open>
  processData(const TLUser &): the record is stored, then a user with the self flag
  becomes the self user; qWarning is called when another non-zero self id was stored.
\<close>

definition processData_TLUser :: "DataInternalApi \<Rightarrow> TLUser \<Rightarrow> DataInternalApi \<times> LogLine list" where
  "processData_TLUser d user =
     (let d1 = (case m_users d (TLUser_id user) of
                  Some existsUser \<Rightarrow> d\<lparr>m_users := (m_users d)(TLUser_id user \<mapsto> user)\<rparr>
                | None \<Rightarrow> d\<lparr>m_users := (m_users d)(TLUser_id user \<mapsto> user)\<rparr>)
      in if TLUser_self user then
           (d1\<lparr>m_selfUserId := TLUser_id user\<rparr>,
            if m_selfUserId d1 \<noteq> 0 \<and> m_selfUserId d1 \<noteq> TLUser_id user
            then [(QtWarningMsg, ''Got self user with different id.'')] else [])
         else (d1, []))"

subsection \<open>Lookups\<close>

text \<open>
  Modelled from the spec: Utils::toPublicPeer for a TLPeer (ApiUtils, not among the
  sources). A peer is the discriminated value User(id), Chat(id) or Channel(id); a
  TLPeer of another tag gives a peer of no valid type.
\<close>

definition toPublicPeer :: "TLPeer \<Rightarrow> Peer" where
  "toPublicPeer p =
     (case TLPeer_tlType p of
        PeerUser \<Rightarrow> \<lparr>Peer_type = User, Peer_id = TLPeer_userId p\<rparr>
      | PeerChat \<Rightarrow> \<lparr>Peer_type = Chat, Peer_id = TLPeer_chatId p\<rparr>
      | PeerChannel \<Rightarrow> \<lparr>Peer_type = Channel, Peer_id = TLPeer_channelId p\<rparr>
      | _ \<Rightarrow> \<lparr>Peer_type = PeerTypeOther, Peer_id = 0\<rparr>)"

text \<open>
  The lookups return the boolean result, the out-parameter as the call leaves it, and
  the lines written with qDebug.
\<close>

text \<open>getDialogInfo: the loop over the dialogs, first match wins.\<close>

fun getDialogInfo_loop :: "TLDialog list \<Rightarrow> TLDialog \<Rightarrow> Peer \<Rightarrow> bool \<times> TLDialog \<times> LogLine list" where
  "getDialogInfo_loop [] info peer = (False, info, [(QtDebugMsg, ''Unknown dialog'')])"
| "getDialogInfo_loop (dialog # dialogs) info peer =
     (let thisDialogPeer = toPublicPeer (TLDialog_peer dialog)
      in if thisDialogPeer = peer then (True, dialog, [])
         else getDialogInfo_loop dialogs info peer)"

definition getDialogInfo :: "DataInternalApi \<Rightarrow> TLDialog \<Rightarrow> Peer \<Rightarrow> bool \<times> TLDialog \<times> LogLine list" where
  "getDialogInfo d info peer =
     getDialogInfo_loop (TLMessagesDialogs_dialogs (m_dialogs d)) info peer"

definition getUserInfo :: "DataInternalApi \<Rightarrow> TLUser \<Rightarrow> quint32 \<Rightarrow> bool \<times> TLUser \<times> LogLine list" where
  "getUserInfo d info userId =
     (case m_users d userId of
        None \<Rightarrow> (False, info, [(QtDebugMsg, ''Unknown user'')])
      | Some user \<Rightarrow> (True, user, []))"

definition getChatInfo :: "DataInternalApi \<Rightarrow> TLChat \<Rightarrow> quint32 \<Rightarrow> bool \<times> TLChat \<times> LogLine list" where
  "getChatInfo d info chatId =
     (case m_chats d chatId of
        None \<Rightarrow> (False, info, [(QtDebugMsg, ''Unknown user'')])
      | Some chat \<Rightarrow> (True, chat, []))"

text \<open>
  getMessage. The branch on the forward header's FromId flag has an empty body in the
  source (its only statement is commented out); it is kept as a branch that leaves the
  message as it is.
\<close>

definition getMessage :: "DataInternalApi \<Rightarrow> Message \<Rightarrow> Peer \<Rightarrow> quint32 \<Rightarrow> bool \<times> Message \<times> LogLine list" where
  "getMessage d message peer messageId =
     (let found = (if Peer_type peer = Channel
                   then m_channelMessages d (channelMessageToKey (Peer_id peer) messageId)
                   else m_clientMessages d messageId)
      in case found of
           None \<Rightarrow> (False, message, [(QtDebugMsg, ''Unknown message'')])
         | Some m \<Rightarrow>
             (let m1 = message\<lparr>Message_type := MessageTypeText,
                               Message_fromId := TLMessage_fromId m,
                               Message_timestamp := TLMessage_date m,
                               Message_text := TLMessage_message m,
                               Message_flags := MessageFlagNone\<rparr>;
                  m2 = (if TLMessage_out m
                        then m1\<lparr>Message_flags := Message_flags m1 \<union> {MessageFlagOut}\<rparr>
                        else m1);
                  m3 = (if TLMessage_FwdFrom \<in> TLMessage_flags m then
                          (let m2' = m2\<lparr>Message_flags := Message_flags m2 \<union> {MessageFlagForwarded}\<rparr>
                           in if TLMessageFwdHeader_FromId \<in> TLMessageFwdHeader_flags (TLMessage_fwdFrom m)
                              then m2' else m2')
                        else m2)
              in (True, m3, [])))"

subsection \<open>Resolving a peer\<close>

text \<open>toInputPeer returns the InputPeer and the lines written with qWarning.\<close>

definition toInputPeer :: "DataInternalApi \<Rightarrow> Peer \<Rightarrow> TLInputPeer \<times> LogLine list" where
  "toInputPeer d peer =
     (let inputPeer = TLInputPeer_new
      in case Peer_type peer of
           Chat \<Rightarrow>
             (inputPeer\<lparr>TLInputPeer_tlType := InputPeerChat, TLInputPeer_chatId := Peer_id peer\<rparr>, [])
         | Channel \<Rightarrow>
             (case m_chats d (Peer_id peer) of
                Some chat \<Rightarrow>
                  (inputPeer\<lparr>TLInputPeer_tlType := InputPeerChannel,
                             TLInputPeer_channelId := Peer_id peer,
                             TLInputPeer_accessHash := TLChat_accessHash chat\<rparr>, [])
              | None \<Rightarrow> (inputPeer, [(QtWarningMsg, ''Unknown public channel id'')]))
         | User \<Rightarrow>
             (if Peer_id peer = m_selfUserId d then
                (inputPeer\<lparr>TLInputPeer_tlType := InputPeerSelf\<rparr>, [])
              else
                (case m_users d (Peer_id peer) of
                   Some user \<Rightarrow>
                     (inputPeer\<lparr>TLInputPeer_tlType := InputPeerUser,
                                TLInputPeer_userId := Peer_id peer,
                                TLInputPeer_accessHash := TLUser_accessHash user\<rparr>, [])
                 | None \<Rightarrow> (inputPeer, [(QtWarningMsg, ''Unknown user'')])))
         | PeerTypeOther \<Rightarrow> (inputPeer, [(QtWarningMsg, ''Unknown peer type'')]))"

text \<open>
  Modelled from the spec: the peer that a resolved InputPeer stands for (the conversion
  of a TLInputPeer back to a Peer is in ApiUtils, not among the sources). An InputPeer
  is the resolved form of a peer, with a shortcut for the self user; the empty InputPeer
  stands for no peer.
\<close>

definition peerOfInputPeer :: "quint32 \<Rightarrow> TLInputPeer \<Rightarrow> Peer option" where
  "peerOfInputPeer selfId inputPeer =
     (case TLInputPeer_tlType inputPeer of
        InputPeerSelf \<Rightarrow> Some \<lparr>Peer_type = User, Peer_id = selfId\<rparr>
      | InputPeerUser \<Rightarrow> Some \<lparr>Peer_type = User, Peer_id = TLInputPeer_userId inputPeer\<rparr>
      | InputPeerChat \<Rightarrow> Some \<lparr>Peer_type = Chat, Peer_id = TLInputPeer_chatId inputPeer\<rparr>
      | InputPeerChannel \<Rightarrow> Some \<lparr>Peer_type = Channel, Peer_id = TLInputPeer_channelId inputPeer\<rparr>
      | _ \<Rightarrow> None)"

section \<open>DcConfiguration.hpp: ConnectionSpec\<close>

text \<open>
  RequestFlags is a QFlags over RequestFlag; qHash casts it to quint32, so the flags are
  a 32-bit word here.
\<close>

definition RequestFlag_None :: quint32 where "RequestFlag_None = 0"
definition RequestFlag_Ipv4Only :: quint32 where "RequestFlag_Ipv4Only = push_bit 1 1"
definition RequestFlag_Ipv6Only :: quint32 where "RequestFlag_Ipv6Only = push_bit 2 1"
definition RequestFlag_MediaOnly :: quint32 where "RequestFlag_MediaOnly = push_bit 3 1"

record ConnectionSpec =
  dcId :: quint32
  flags :: quint32

text \<open>ConnectionSpec::operator==.\<close>

definition ConnectionSpec_equals :: "ConnectionSpec \<Rightarrow> ConnectionSpec \<Rightarrow> bool" where
  "ConnectionSpec_equals this spec = (dcId spec = dcId this \<and> flags spec = flags this)"

text \<open>
  qHash(const ConnectionSpec &, uint). Qt's qHash(uint, uint) is a parameter: the
  library function is called, whatever it computes.
\<close>

definition qHash_ConnectionSpec ::
    "(quint32 \<Rightarrow> quint32 \<Rightarrow> quint32) \<Rightarrow> ConnectionSpec \<Rightarrow> quint32 \<Rightarrow> quint32" where
  "qHash_ConnectionSpec qHash_uint key seed =
     qHash_uint (dcId key OR push_bit 20 (flags key)) seed"

section \<open>RemoteClientConnection.cpp: the auth key of an inbound packet\<close>

text \<open>
  MTProtoSendHelper as the connection uses it: the auth key it holds and the id of that
  key, read with authId().
\<close>

record MTProtoSendHelper =
  authKey :: QByteArray
  authId :: quint64

text \<open>
  Modelled from the spec: MTProtoSendHelper::setAuthKey (the helper's class is not among
  the sources). The helper owns the auth key and its id, and the id is derived from the
  key when the key is set; the derivation, the low 64 bits of SHA-1 of the key, is the
  parameter \<open>keyId\<close>.
\<close>

definition setAuthKey :: "(QByteArray \<Rightarrow> quint64) \<Rightarrow> MTProtoSendHelper \<Rightarrow> QByteArray \<Rightarrow> MTProtoSendHelper" where
  "setAuthKey keyId helper newAuthKey = helper\<lparr>authKey := newAuthKey, authId := keyId newAuthKey\<rparr>"

text \<open>
  BaseConnection::Status and StatusReason: the sources name Status::Failed and
  StatusReason::Local; the other enumerators are the values \<open>Status_other n\<close> and
  \<open>StatusReason_other n\<close>.
\<close>

datatype Status = Status_Failed | Status_other nat

datatype StatusReason = StatusReason_Local | StatusReason_other nat

text \<open>The slots of the connection that the transport's packetReceived signal can call.\<close>

datatype PacketReceivedSlot = Slot_onTransportPacketReceived | Slot_sendKeyError

text \<open>
  The connection: its send helper, its status, the packets handed to the transport's
  sendPacket in order, the slots connected to packetReceived, and the lines written with
  qCInfo.
\<close>

record RemoteClientConnection =
  m_sendHelper :: MTProtoSendHelper
  m_status :: Status
  transport_sent :: "QByteArray list"
  packetReceived_slots :: "PacketReceivedSlot list"
  infoLog :: "LogLine list"

text \<open>\<open>QByteArray::fromHex(QByteArrayLiteral("6cfeffff"))\<close>\<close>

definition errorPackage :: QByteArray where
  "errorPackage = [0x6c, 0xfe, 0xff, 0xff]"

definition sendKeyError :: "RemoteClientConnection \<Rightarrow> RemoteClientConnection" where
  "sendKeyError c = c\<lparr>transport_sent := transport_sent c @ [errorPackage]\<rparr>"

text \<open>
  Modelled from the spec: BaseConnection::setStatus (the base class is not among the
  sources). The connection is marked with the status; the reason goes to the listeners
  of the change and is not kept in the connection.
\<close>

definition setStatus :: "Status \<Rightarrow> StatusReason \<Rightarrow> RemoteClientConnection \<Rightarrow> RemoteClientConnection" where
  "setStatus status reason c = c\<lparr>m_status := status\<rparr>"

text \<open>QObject::disconnect removes every connection of the signal to the slot; connect adds one.\<close>

definition disconnect_slot :: "PacketReceivedSlot \<Rightarrow> RemoteClientConnection \<Rightarrow> RemoteClientConnection" where
  "disconnect_slot slot c = c\<lparr>packetReceived_slots := removeAll slot (packetReceived_slots c)\<rparr>"

definition connect_slot :: "PacketReceivedSlot \<Rightarrow> RemoteClientConnection \<Rightarrow> RemoteClientConnection" where
  "connect_slot slot c = c\<lparr>packetReceived_slots := packetReceived_slots c @ [slot]\<rparr>"

text \<open>The last four statements of processAuthKey, reached from two branches.\<close>

definition processAuthKey_fail :: "RemoteClientConnection \<Rightarrow> bool \<times> RemoteClientConnection" where
  "processAuthKey_fail c =
     (False,
      sendKeyError
        (setStatus Status_Failed StatusReason_Local
          (connect_slot Slot_sendKeyError
            (disconnect_slot Slot_onTransportPacketReceived c))))"

text \<open>
  processAuthKey. The server API's getAuthKeyById is a parameter; it returns the key
  as a QByteArray, empty when the API has no key of that id.
\<close>

definition processAuthKey ::
    "(QByteArray \<Rightarrow> quint64) \<Rightarrow> (quint64 \<Rightarrow> QByteArray) \<Rightarrow> RemoteClientConnection \<Rightarrow> quint64
      \<Rightarrow> bool \<times> RemoteClientConnection" where
  "processAuthKey keyId getAuthKeyById c authKeyId =
     (if authKeyId = authId (m_sendHelper c) then (True, c)
      else if authId (m_sendHelper c) \<noteq> 0 then
        processAuthKey_fail
          (c\<lparr>infoLog := infoLog c @
               [(QtInfoMsg, ''new session authKeyId is different from the expected'')]\<rparr>)
      else
        (let authKey = getAuthKeyById authKeyId
         in if authKey = [] then
              processAuthKey_fail
                (c\<lparr>infoLog := infoLog c @
                     [(QtInfoMsg, ''Unable to find an authorization with id'')]\<rparr>)
            else
              (True,
               c\<lparr>infoLog := infoLog c @
                    [(QtInfoMsg, ''assign exists session (by auth key id)'')],
                  m_sendHelper := setAuthKey keyId (m_sendHelper c) authKey\<rparr>)))"

text \<open>
  The spec's reading of the error frame, a little-endian negative length: the 32-bit
  number that four bytes encode least significant byte first, as a signed value. It
  follows the spec's words and is no function of the sources.
\<close>

definition frame_length_le :: "QByteArray \<Rightarrow> int" where
  "frame_length_le bytes =
     sint (word_rcat (rev bytes) :: quint32)"

section \<open>UsersOperationFactory.cpp: users.getFullUser\<close>

datatype RpcError_Reason = UserIdInvalid

record RpcError =
  RpcError_type :: nat
  RpcError_message :: string

text \<open>
  Modelled from the spec: the RpcError that the class RpcError (RpcError.hpp, not among
  the sources) builds for a reason: the reply for an unregistered user is
  rpc_error { 400, "USER_ID_INVALID" }.
\<close>

definition RpcError_of :: "RpcError_Reason \<Rightarrow> RpcError" where
  "RpcError_of reason =
     (case reason of
        UserIdInvalid \<Rightarrow> \<lparr>RpcError_type = 400, RpcError_message = ''USER_ID_INVALID''\<rparr>)"

record TLUserFull =
  TLUserFull_user :: TLUser

text \<open>
  Modelled from the spec: the default-constructed TLUserFull (TLTypes.hpp, not among the
  sources), a user record with every number zero and no flag.
\<close>

definition TLUserFull_new :: TLUserFull where
  "TLUserFull_new =
     \<lparr>TLUserFull_user = \<lparr>TLUser_id = 0, TLUser_accessHash = 0, TLUser_flags = {}\<rparr>\<rparr>"

text \<open>What an operation hands to its layer: sendRpcError or sendRpcReply.\<close>

datatype 'r RpcSent = RpcErrorSent RpcError | RpcReplySent 'r

text \<open>
  runGetFullUser returns the messages it sends. The parameters are what the operation
  reads: the server API's getUser, Utils::setupTLUser (which fills a TLUser from a user
  of the server and the requester, and whose boolean result the method ignores), the
  layer's user \<open>self\<close> (a pointer, so possibly none) and the request's id.
\<close>

definition runGetFullUser ::
    "('inputUser \<Rightarrow> 'localUser option \<Rightarrow> 'user option)
      \<Rightarrow> (TLUser \<Rightarrow> 'user \<Rightarrow> 'localUser option \<Rightarrow> bool \<times> TLUser)
      \<Rightarrow> 'localUser option \<Rightarrow> 'inputUser \<Rightarrow> TLUserFull RpcSent list" where
  "runGetFullUser getUser setupTLUser self m_getFullUser_id =
     (case getUser m_getFullUser_id self of
        None \<Rightarrow> [RpcErrorSent (RpcError_of UserIdInvalid)]
      | Some user \<Rightarrow>
          (let result = TLUserFull_new;
               result = result\<lparr>TLUserFull_user := snd (setupTLUser (TLUserFull_user result) user self)\<rparr>
           in [RpcReplySent result]))"

section \<open>Concrete values\<close>

text \<open>
  A small store, a connection and a server API, on which the theorems below are
  evaluated: the self user 5, another user 7, the channel 9, one message of id 3 in the
  chat with user 7 and one forwarded message of the same id 3 in the channel 9.
\<close>

definition example_self_user :: TLUser where
  "example_self_user = \<lparr>TLUser_id = 5, TLUser_accessHash = 0x55, TLUser_flags = {TLUser_Self}\<rparr>"

definition example_user :: TLUser where
  "example_user = \<lparr>TLUser_id = 7, TLUser_accessHash = 0x77, TLUser_flags = {}\<rparr>"

definition example_other_self_user :: TLUser where
  "example_other_self_user = \<lparr>TLUser_id = 6, TLUser_accessHash = 0x66, TLUser_flags = {TLUser_Self}\<rparr>"

definition example_channel :: TLChat where
  "example_channel = \<lparr>TLChat_id = 9, TLChat_accessHash = 0x99\<rparr>"

definition example_plain_message :: TLMessage where
  "example_plain_message =
     \<lparr>TLMessage_id = 3, TLMessage_flags = {TLMessage_Out}, TLMessage_fromId = 5,
      TLMessage_toId = \<lparr>TLPeer_tlType = PeerUser, TLPeer_userId = 7, TLPeer_chatId = 0,
                        TLPeer_channelId = 0\<rparr>,
      TLMessage_date = 1000, TLMessage_message = ''hello'',
      TLMessage_fwdFrom = \<lparr>TLMessageFwdHeader_flags = {}, TLMessageFwdHeader_fromId = 0\<rparr>\<rparr>"

definition example_channel_message :: TLMessage where
  "example_channel_message =
     \<lparr>TLMessage_id = 3, TLMessage_flags = {TLMessage_FwdFrom}, TLMessage_fromId = 7,
      TLMessage_toId = \<lparr>TLPeer_tlType = PeerChannel, TLPeer_userId = 0, TLPeer_chatId = 0,
                        TLPeer_channelId = 9\<rparr>,
      TLMessage_date = 2000, TLMessage_message = ''forwarded'',
      TLMessage_fwdFrom = \<lparr>TLMessageFwdHeader_flags = {TLMessageFwdHeader_FromId},
                           TLMessageFwdHeader_fromId = 7\<rparr>\<rparr>"

definition example_dialog :: TLDialog where
  "example_dialog =
     \<lparr>TLDialog_peer = \<lparr>TLPeer_tlType = PeerChannel, TLPeer_userId = 0, TLPeer_chatId = 0,
                       TLPeer_channelId = 9\<rparr>,
      TLDialog_topMessage = 3\<rparr>"

definition example_store :: DataInternalApi where
  "example_store =
     \<lparr>m_selfUserId = 5,
      m_users = [5 \<mapsto> example_self_user, 7 \<mapsto> example_user],
      m_chats = [9 \<mapsto> example_channel],
      m_clientMessages = [3 \<mapsto> example_plain_message],
      m_channelMessages = [0x900000003 \<mapsto> example_channel_message],
      m_dialogs = \<lparr>TLMessagesDialogs_dialogs = [example_dialog]\<rparr>\<rparr>"

definition example_out_message :: Message where
  "example_out_message =
     \<lparr>Message_type = MessageTypeOther, Message_fromId = 0, Message_timestamp = 0,
      Message_text = [], Message_flags = {},
      Message_forwardFromPeer = \<lparr>Peer_type = User, Peer_id = 0\<rparr>\<rparr>"

definition example_spec :: ConnectionSpec where
  "example_spec = \<lparr>dcId = 2, flags = RequestFlag_MediaOnly\<rparr>"

text \<open>A stand-in for Qt's qHash(uint, uint).\<close>

definition example_qHash :: "quint32 \<Rightarrow> quint32 \<Rightarrow> quint32" where
  "example_qHash key seed = key XOR seed"

text \<open>A server API that holds one key, of id 7, and a stand-in for the id of a key.\<close>

definition example_getAuthKeyById :: "quint64 \<Rightarrow> QByteArray" where
  "example_getAuthKeyById authKeyId = (if authKeyId = 7 then [7, 7] else [])"

definition example_keyId :: "QByteArray \<Rightarrow> quint64" where
  "example_keyId key = (if key = [7, 7] then 7 else 0)"

definition example_fresh_connection :: RemoteClientConnection where
  "example_fresh_connection =
     \<lparr>m_sendHelper = \<lparr>authKey = [], authId = 0\<rparr>,
      m_status = Status_other 0,
      transport_sent = [], packetReceived_slots = [Slot_onTransportPacketReceived],
      infoLog = []\<rparr>"

text \<open>
  A server API with the single user 1; an InputUser is its pair (user_id, access_hash),
  a user of the server is its id.
\<close>

definition example_getUser :: "quint32 \<times> quint64 \<Rightarrow> quint32 option \<Rightarrow> quint32 option" where
  "example_getUser inputUser self = (if fst inputUser = 1 then Some 1 else None)"

definition example_setupTLUser :: "TLUser \<Rightarrow> quint32 \<Rightarrow> quint32 option \<Rightarrow> bool \<times> TLUser" where
  "example_setupTLUser output user self = (True, output\<lparr>TLUser_id := user\<rparr>)"

section \<open>Facts about the definitions\<close>

lemma channelMessageToKey_or:
  "channelMessageToKey c m = push_bit 32 (ucast c) OR ucast m"
  unfolding channelMessageToKey_def Let_def
  by (rule disjunctive_add) (auto simp: bit_simps dest: bit_imp_le_length)

lemma channelMessageToKey_low: "(ucast (channelMessageToKey c m) :: quint32) = m"
  unfolding channelMessageToKey_or
  by (rule bit_word_eqI) (auto simp: bit_simps dest: bit_imp_le_length)

lemma channelMessageToKey_high:
  "(ucast (drop_bit 32 (channelMessageToKey c m)) :: quint32) = c"
  unfolding channelMessageToKey_or
  by (rule bit_word_eqI) (auto simp: bit_simps dest: bit_imp_le_length)

lemma channelMessageToKey_inj:
  "channelMessageToKey c m = channelMessageToKey c' m' \<longleftrightarrow> c = c' \<and> m = m'"
  by (metis channelMessageToKey_low channelMessageToKey_high)

lemma processData_TLMessage_channel:
  "TLPeer_tlType (TLMessage_toId msg) = PeerChannel \<Longrightarrow>
   processData_TLMessage d msg =
     d\<lparr>m_channelMessages := (m_channelMessages d)
          (channelMessageToKey (TLPeer_channelId (TLMessage_toId msg)) (TLMessage_id msg) \<mapsto> msg)\<rparr>"
  by (simp add: processData_TLMessage_def Let_def)

lemma processData_TLMessage_plain:
  "TLPeer_tlType (TLMessage_toId msg) \<noteq> PeerChannel \<Longrightarrow>
   processData_TLMessage d msg =
     d\<lparr>m_clientMessages := (m_clientMessages d)(TLMessage_id msg \<mapsto> msg)\<rparr>"
  by (simp add: processData_TLMessage_def Let_def)

lemma processData_TLChat_eq:
  "processData_TLChat d chat = d\<lparr>m_chats := (m_chats d)(TLChat_id chat \<mapsto> chat)\<rparr>"
  by (simp add: processData_TLChat_def)

lemma processData_TLUser_store:
  "fst (processData_TLUser d user) =
     d\<lparr>m_users := (m_users d)(TLUser_id user \<mapsto> user),
       m_selfUserId := (if TLUser_self user then TLUser_id user else m_selfUserId d)\<rparr>"
  by (simp add: processData_TLUser_def Let_def split: option.splits)

lemma processData_TLUser_log:
  "snd (processData_TLUser d user) =
     (if TLUser_self user \<and> m_selfUserId d \<noteq> 0 \<and> m_selfUserId d \<noteq> TLUser_id user
      then [(QtWarningMsg, ''Got self user with different id.'')] else [])"
  by (simp add: processData_TLUser_def Let_def split: option.splits)

text \<open>The loop of getDialogInfo returns the first dialog of the list whose peer is the one asked for.\<close>

lemma getDialogInfo_loop_find:
  "getDialogInfo_loop dialogs info peer =
     (case find (\<lambda>dialog. toPublicPeer (TLDialog_peer dialog) = peer) dialogs of
        None \<Rightarrow> (False, info, [(QtDebugMsg, ''Unknown dialog'')])
      | Some dialog \<Rightarrow> (True, dialog, []))"
  by (induction dialogs) (simp_all add: Let_def)

lemma fst_toInputPeer_cases:
  "fst (toInputPeer d peer) =
     (case Peer_type peer of
        Chat \<Rightarrow> TLInputPeer_new\<lparr>TLInputPeer_tlType := InputPeerChat, TLInputPeer_chatId := Peer_id peer\<rparr>
      | Channel \<Rightarrow>
          (case m_chats d (Peer_id peer) of
             Some chat \<Rightarrow> TLInputPeer_new\<lparr>TLInputPeer_tlType := InputPeerChannel,
                             TLInputPeer_channelId := Peer_id peer,
                             TLInputPeer_accessHash := TLChat_accessHash chat\<rparr>
           | None \<Rightarrow> TLInputPeer_new)
      | User \<Rightarrow>
          (if Peer_id peer = m_selfUserId d then TLInputPeer_new\<lparr>TLInputPeer_tlType := InputPeerSelf\<rparr>
           else (case m_users d (Peer_id peer) of
                   Some user \<Rightarrow> TLInputPeer_new\<lparr>TLInputPeer_tlType := InputPeerUser,
                                TLInputPeer_userId := Peer_id peer,
                                TLInputPeer_accessHash := TLUser_accessHash user\<rparr>
                 | None \<Rightarrow> TLInputPeer_new))
      | PeerTypeOther \<Rightarrow> TLInputPeer_new)"
  by (simp add: toInputPeer_def Let_def split: PeerType.splits option.splits)

lemma toInputPeer_self_iff:
  "TLInputPeer_tlType (fst (toInputPeer d peer)) = InputPeerSelf
     \<longleftrightarrow> Peer_type peer = User \<and> Peer_id peer = m_selfUserId d"
  by (simp add: fst_toInputPeer_cases TLInputPeer_new_def split: PeerType.splits option.splits)

lemma toInputPeer_again:
  "peerOfInputPeer (m_selfUserId d) (fst (toInputPeer d peer)) = Some peer' \<Longrightarrow>
   fst (toInputPeer d peer') = fst (toInputPeer d peer)"
  by (auto simp: fst_toInputPeer_cases peerOfInputPeer_def TLInputPeer_new_def
      split: PeerType.splits option.splits if_splits)

lemma processAuthKey_fail_eq:
  "processAuthKey_fail c =
     (False, c\<lparr>packetReceived_slots :=
                  removeAll Slot_onTransportPacketReceived (packetReceived_slots c) @ [Slot_sendKeyError],
               m_status := Status_Failed,
               transport_sent := transport_sent c @ [errorPackage]\<rparr>)"
  by (simp add: processAuthKey_fail_def sendKeyError_def setStatus_def connect_slot_def
        disconnect_slot_def)

lemma errorPackage_le: "(word_rcat (rev errorPackage) :: quint32) = 0xfffffe6c"
  by (simp add: errorPackage_def word_rcat_def)

lemma example_store_fields:
  "m_selfUserId example_store = 5"
  "m_users example_store = [5 \<mapsto> example_self_user, 7 \<mapsto> example_user]"
  "m_chats example_store = [9 \<mapsto> example_channel]"
  "m_clientMessages example_store = [3 \<mapsto> example_plain_message]"
  "m_channelMessages example_store = [0x900000003 \<mapsto> example_channel_message]"
  "m_dialogs example_store = \<lparr>TLMessagesDialogs_dialogs = [example_dialog]\<rparr>"
  by (simp_all add: example_store_def)

lemma example_key: "channelMessageToKey 9 3 = 0x900000003"
  by (simp add: channelMessageToKey_def)

section \<open>The claims\<close>

subsection \<open>C1: the auth key id of a first packet\<close>

text \<open>
  C1. A first packet meets the send helper as the constructor made it, with no key
  bound: its id is 0. For every non-zero auth key id of such a packet, which then
  differs from the id on the helper, processAuthKey looks the key up by id in the
  server API. When the key is found it is bound to the helper, the result is true,
  nothing is sent and the status is unchanged. When the lookup yields no key (an empty
  byte array) the key-error frame is sent, the status is Failed and the result is
  false, with the helper left unbound. The refusal happens only then: the result is
  false, and the frame is sent, exactly when the lookup yields no key.
\<close>

theorem processAuthKey_first_packet:
  "authKeyId \<noteq> 0 \<Longrightarrow> authId (m_sendHelper c) = 0 \<Longrightarrow>
   authKeyId \<noteq> authId (m_sendHelper c)
   \<and> (getAuthKeyById authKeyId \<noteq> [] \<longrightarrow>
      processAuthKey keyId getAuthKeyById c authKeyId =
        (True,
         c\<lparr>infoLog := infoLog c @ [(QtInfoMsg, ''assign exists session (by auth key id)'')],
           m_sendHelper := setAuthKey keyId (m_sendHelper c) (getAuthKeyById authKeyId)\<rparr>)
      \<and> authKey (m_sendHelper (snd (processAuthKey keyId getAuthKeyById c authKeyId))) =
          getAuthKeyById authKeyId
      \<and> transport_sent (snd (processAuthKey keyId getAuthKeyById c authKeyId)) = transport_sent c
      \<and> m_status (snd (processAuthKey keyId getAuthKeyById c authKeyId)) = m_status c)
   \<and> (getAuthKeyById authKeyId = [] \<longrightarrow>
      \<not> fst (processAuthKey keyId getAuthKeyById c authKeyId)
      \<and> m_sendHelper (snd (processAuthKey keyId getAuthKeyById c authKeyId)) = m_sendHelper c
      \<and> transport_sent (snd (processAuthKey keyId getAuthKeyById c authKeyId)) =
          transport_sent c @ [errorPackage]
      \<and> m_status (snd (processAuthKey keyId getAuthKeyById c authKeyId)) = Status_Failed)
   \<and> (fst (processAuthKey keyId getAuthKeyById c authKeyId) \<longleftrightarrow> getAuthKeyById authKeyId \<noteq> [])
   \<and> (transport_sent (snd (processAuthKey keyId getAuthKeyById c authKeyId)) \<noteq> transport_sent c
        \<longleftrightarrow> getAuthKeyById authKeyId = [])"
  by (auto simp: processAuthKey_def processAuthKey_fail_eq Let_def setAuthKey_def)

text \<open>
  On the server API that holds the key of id 7, a fresh connection binds the key for a
  first packet of id 7 and is refused, with the frame sent, for a first packet of the
  unknown id 8.
\<close>

theorem processAuthKey_first_packet_witness:
  "(7 :: quint64) \<noteq> 0
   \<and> (8 :: quint64) \<noteq> 0
   \<and> authId (m_sendHelper example_fresh_connection) = 0
   \<and> example_getAuthKeyById 7 \<noteq> []
   \<and> fst (processAuthKey example_keyId example_getAuthKeyById example_fresh_connection 7)
   \<and> m_sendHelper (snd (processAuthKey example_keyId example_getAuthKeyById example_fresh_connection 7))
       = \<lparr>authKey = [7, 7], authId = 7\<rparr>
   \<and> transport_sent (snd (processAuthKey example_keyId example_getAuthKeyById example_fresh_connection 7))
       = []
   \<and> example_getAuthKeyById 8 = []
   \<and> \<not> fst (processAuthKey example_keyId example_getAuthKeyById example_fresh_connection 8)
   \<and> transport_sent (snd (processAuthKey example_keyId example_getAuthKeyById example_fresh_connection 8))
       = [[0x6c, 0xfe, 0xff, 0xff]]
   \<and> m_status (snd (processAuthKey example_keyId example_getAuthKeyById example_fresh_connection 8))
       = Status_Failed"
  using processAuthKey_first_packet [of 7 example_fresh_connection example_getAuthKeyById example_keyId]
        processAuthKey_first_packet [of 8 example_fresh_connection example_getAuthKeyById example_keyId]
  by (simp add: example_fresh_connection_def example_getAuthKeyById_def example_keyId_def
        errorPackage_def setAuthKey_def)

subsection \<open>C2: the key-error frame\<close>

text \<open>
  C2, as the code has it. The packet of sendKeyError is the four bytes 6c fe ff ff, which
  read as a little-endian 32-bit length are 0xfffffe6c, that is -404. Whenever
  processAuthKey returns false it has appended exactly this packet to what the
  transport sent, the status is Failed, and the transport's
  packetReceived signal no longer reaches onTransportPacketReceived but sendKeyError.
  When it returns true nothing is sent and the status is unchanged.
\<close>

theorem sendKeyError_frame:
  "errorPackage = [0x6c, 0xfe, 0xff, 0xff]
   \<and> frame_length_le errorPackage = - 404
   \<and> transport_sent (sendKeyError c) = transport_sent c @ [errorPackage]
   \<and> (\<not> fst (processAuthKey keyId getAuthKeyById c authKeyId) \<longrightarrow>
        transport_sent (snd (processAuthKey keyId getAuthKeyById c authKeyId)) =
          transport_sent c @ [errorPackage]
        \<and> m_status (snd (processAuthKey keyId getAuthKeyById c authKeyId)) = Status_Failed
        \<and> packetReceived_slots (snd (processAuthKey keyId getAuthKeyById c authKeyId)) =
            removeAll Slot_onTransportPacketReceived (packetReceived_slots c) @ [Slot_sendKeyError])
   \<and> (fst (processAuthKey keyId getAuthKeyById c authKeyId) \<longrightarrow>
        transport_sent (snd (processAuthKey keyId getAuthKeyById c authKeyId)) = transport_sent c
        \<and> m_status (snd (processAuthKey keyId getAuthKeyById c authKeyId)) = m_status c)"
  by (simp add: processAuthKey_def processAuthKey_fail_eq Let_def setAuthKey_def
        sendKeyError_def frame_length_le_def errorPackage_le)
     (simp add: errorPackage_def)

text \<open>
  C2 as stated fails in its reading of the frame: the bytes 6c fe ff ff that sendKeyError
  sends are the little-endian encoding of 0xfffffe6c, which is not 0xfeffff6c; as
  signed lengths the two differ as well.
\<close>

theorem errorPackage_is_not_0xfeffff6c:
  "transport_sent (sendKeyError example_fresh_connection) = [[0x6c, 0xfe, 0xff, 0xff]]
   \<and> (word_rcat (rev [0x6c, 0xfe, 0xff, 0xff :: quint8]) :: quint32) = 0xfffffe6c
   \<and> (0xfffffe6c :: quint32) \<noteq> 0xfeffff6c
   \<and> frame_length_le [0x6c, 0xfe, 0xff, 0xff] \<noteq> sint (0xfeffff6c :: quint32)"
  by (simp add: sendKeyError_def example_fresh_connection_def errorPackage_def
        frame_length_le_def word_rcat_def)

text \<open>
  The refusal on the concrete connections: the unknown id 8 on a fresh connection and
  the id 7 on a connection bound to key 5 both end with the frame sent and the status
  Failed; the known id 7 on a fresh connection sends nothing.
\<close>

theorem sendKeyError_frame_witness:
  "\<not> fst (processAuthKey example_keyId example_getAuthKeyById example_fresh_connection 8)
   \<and> transport_sent (snd (processAuthKey example_keyId example_getAuthKeyById example_fresh_connection 8))
       = [[0x6c, 0xfe, 0xff, 0xff]]
   \<and> m_status (snd (processAuthKey example_keyId example_getAuthKeyById example_fresh_connection 8))
       = Status_Failed
   \<and> packetReceived_slots (snd (processAuthKey example_keyId example_getAuthKeyById example_fresh_connection 8))
       = [Slot_sendKeyError]
   \<and> fst (processAuthKey example_keyId example_getAuthKeyById example_fresh_connection 7)
   \<and> transport_sent (snd (processAuthKey example_keyId example_getAuthKeyById example_fresh_connection 7))
       = []"
  using sendKeyError_frame [of example_fresh_connection example_keyId example_getAuthKeyById 8]
        sendKeyError_frame [of example_fresh_connection example_keyId example_getAuthKeyById 7]
  by (simp add: processAuthKey_def Let_def processAuthKey_fail_eq example_fresh_connection_def
        example_getAuthKeyById_def setAuthKey_def)

subsection \<open>C3: users.getFullUser\<close>

text \<open>
  C3. When getUser resolves the request's InputUser to no user, runGetFullUser sends
  exactly one message, the rpc_error with code 400 and message USER_ID_INVALID, and no
  UserFull reply. When getUser resolves it to a user, runGetFullUser sends exactly one
  message, the UserFull reply whose user is what setupTLUser fills in, and no error.
\<close>

theorem runGetFullUser_reply:
  "(getUser inputUser self = None \<longrightarrow>
      runGetFullUser getUser setupTLUser self inputUser =
        [RpcErrorSent \<lparr>RpcError_type = 400, RpcError_message = ''USER_ID_INVALID''\<rparr>])
   \<and> (getUser inputUser self = Some user \<longrightarrow>
      runGetFullUser getUser setupTLUser self inputUser =
        [RpcReplySent \<lparr>TLUserFull_user =
           snd (setupTLUser (TLUserFull_user TLUserFull_new) user self)\<rparr>])"
  by (simp add: runGetFullUser_def RpcError_of_def Let_def)

text \<open>
  On the server API with the single user 1: the request for InputUser (999, 0) gets the
  error, the request for InputUser (1, 0) gets the reply.
\<close>

theorem runGetFullUser_reply_witness:
  "example_getUser (999, 0) (Some 1) = None
   \<and> runGetFullUser example_getUser example_setupTLUser (Some 1) (999, 0) =
        [RpcErrorSent \<lparr>RpcError_type = 400, RpcError_message = ''USER_ID_INVALID''\<rparr>]
   \<and> example_getUser (1, 0) (Some 1) = Some 1
   \<and> runGetFullUser example_getUser example_setupTLUser (Some 1) (1, 0) =
        [RpcReplySent \<lparr>TLUserFull_user = \<lparr>TLUser_id = 1, TLUser_accessHash = 0, TLUser_flags = {}\<rparr>\<rparr>]"
  using runGetFullUser_reply [of example_getUser "(999, 0)" "Some 1" example_setupTLUser]
        runGetFullUser_reply [of example_getUser "(1, 0)" "Some 1" example_setupTLUser 1]
  by (simp add: example_getUser_def example_setupTLUser_def TLUserFull_new_def)

subsection \<open>C4: toInputPeer\<close>

text \<open>
  C4, as the code has it. Resolving again the peer that a resolved InputPeer stands for
  yields the same InputPeer. The result is the self shortcut InputPeerSelf if and only
  if the peer is a user and its id equals the stored self user id (a chat or channel of
  that id is resolved as a chat or channel). For a channel whose id is stored among the
  chats, and for a user other than self whose id is stored among the users, the result
  carries the access hash stored for that id and nothing is logged; when the id is not
  stored the result is the empty InputPeer and a warning is logged.
\<close>

theorem toInputPeer_resolution:
  "(peerOfInputPeer (m_selfUserId d) (fst (toInputPeer d peer)) = Some peer' \<longrightarrow>
      fst (toInputPeer d peer') = fst (toInputPeer d peer))
   \<and> (TLInputPeer_tlType (fst (toInputPeer d peer)) = InputPeerSelf
        \<longleftrightarrow> Peer_type peer = User \<and> Peer_id peer = m_selfUserId d)
   \<and> (Peer_type peer = Channel \<and> m_chats d (Peer_id peer) = Some chat \<longrightarrow>
        toInputPeer d peer =
          (TLInputPeer_new\<lparr>TLInputPeer_tlType := InputPeerChannel,
                           TLInputPeer_channelId := Peer_id peer,
                           TLInputPeer_accessHash := TLChat_accessHash chat\<rparr>, []))
   \<and> (Peer_type peer = User \<and> Peer_id peer \<noteq> m_selfUserId d
        \<and> m_users d (Peer_id peer) = Some user \<longrightarrow>
        toInputPeer d peer =
          (TLInputPeer_new\<lparr>TLInputPeer_tlType := InputPeerUser,
                           TLInputPeer_userId := Peer_id peer,
                           TLInputPeer_accessHash := TLUser_accessHash user\<rparr>, []))
   \<and> (Peer_type peer = Channel \<and> m_chats d (Peer_id peer) = None \<longrightarrow>
        toInputPeer d peer = (TLInputPeer_new, [(QtWarningMsg, ''Unknown public channel id'')]))
   \<and> (Peer_type peer = User \<and> Peer_id peer \<noteq> m_selfUserId d
        \<and> m_users d (Peer_id peer) = None \<longrightarrow>
        toInputPeer d peer = (TLInputPeer_new, [(QtWarningMsg, ''Unknown user'')]))"
proof (intro conjI impI)
  assume "peerOfInputPeer (m_selfUserId d) (fst (toInputPeer d peer)) = Some peer'"
  then show "fst (toInputPeer d peer') = fst (toInputPeer d peer)"
    by (rule toInputPeer_again)
next
  show "TLInputPeer_tlType (fst (toInputPeer d peer)) = InputPeerSelf
        \<longleftrightarrow> Peer_type peer = User \<and> Peer_id peer = m_selfUserId d"
    by (rule toInputPeer_self_iff)
qed (simp_all add: toInputPeer_def Let_def)

text \<open>
  On the concrete store (self user 5, user 7, channel 9): the user 5 resolves to the self
  shortcut and back to itself, the channel 9 and the user 7 carry their stored hashes,
  and the unknown ids 8 give the empty InputPeer with a warning.
\<close>

theorem toInputPeer_resolution_witness:
  "peerOfInputPeer (m_selfUserId example_store)
       (fst (toInputPeer example_store \<lparr>Peer_type = User, Peer_id = 5\<rparr>))
     = Some \<lparr>Peer_type = User, Peer_id = 5\<rparr>
   \<and> TLInputPeer_tlType (fst (toInputPeer example_store \<lparr>Peer_type = User, Peer_id = 5\<rparr>))
       = InputPeerSelf
   \<and> Peer_type \<lparr>Peer_type = Channel, Peer_id = 9\<rparr> = Channel
   \<and> m_chats example_store (Peer_id \<lparr>Peer_type = Channel, Peer_id = 9\<rparr>) = Some example_channel
   \<and> TLInputPeer_accessHash (fst (toInputPeer example_store \<lparr>Peer_type = Channel, Peer_id = 9\<rparr>)) = 0x99
   \<and> m_users example_store 7 = Some example_user
   \<and> TLInputPeer_accessHash (fst (toInputPeer example_store \<lparr>Peer_type = User, Peer_id = 7\<rparr>)) = 0x77
   \<and> m_chats example_store 8 = None
   \<and> toInputPeer example_store \<lparr>Peer_type = Channel, Peer_id = 8\<rparr>
       = (TLInputPeer_new, [(QtWarningMsg, ''Unknown public channel id'')])
   \<and> m_users example_store 8 = None
   \<and> toInputPeer example_store \<lparr>Peer_type = User, Peer_id = 8\<rparr>
       = (TLInputPeer_new, [(QtWarningMsg, ''Unknown user'')])"
  using toInputPeer_resolution [of example_store "\<lparr>Peer_type = User, Peer_id = 5\<rparr>"
          "\<lparr>Peer_type = User, Peer_id = 5\<rparr>"]
        toInputPeer_resolution [of example_store "\<lparr>Peer_type = Channel, Peer_id = 9\<rparr>" _ example_channel]
        toInputPeer_resolution [of example_store "\<lparr>Peer_type = User, Peer_id = 7\<rparr>" _ _ example_user]
        toInputPeer_resolution [of example_store "\<lparr>Peer_type = Channel, Peer_id = 8\<rparr>"]
        toInputPeer_resolution [of example_store "\<lparr>Peer_type = User, Peer_id = 8\<rparr>"]
  by (simp add: example_store_fields peerOfInputPeer_def example_channel_def example_user_def
        TLInputPeer_new_def)

text \<open>
  C4 as stated fails: the chat peer of id 5 has the id of the self user 5, and toInputPeer
  resolves it to InputPeerChat, not to the self shortcut; and the channel peer of the
  unknown id 8 resolves to the empty InputPeer, which carries no stored access hash.
\<close>

theorem toInputPeer_chat_with_self_id:
  "Peer_id \<lparr>Peer_type = Chat, Peer_id = 5\<rparr> = m_selfUserId example_store
   \<and> toInputPeer example_store \<lparr>Peer_type = Chat, Peer_id = 5\<rparr> =
       (\<lparr>TLInputPeer_tlType = InputPeerChat, TLInputPeer_chatId = 5, TLInputPeer_userId = 0,
         TLInputPeer_accessHash = 0, TLInputPeer_channelId = 0\<rparr>, [])
   \<and> InputPeerChat \<noteq> InputPeerSelf
   \<and> Peer_type \<lparr>Peer_type = Channel, Peer_id = 8\<rparr> = Channel
   \<and> toInputPeer example_store \<lparr>Peer_type = Channel, Peer_id = 8\<rparr> =
       (\<lparr>TLInputPeer_tlType = InputPeerEmpty, TLInputPeer_chatId = 0, TLInputPeer_userId = 0,
         TLInputPeer_accessHash = 0, TLInputPeer_channelId = 0\<rparr>,
        [(QtWarningMsg, ''Unknown public channel id'')])"
  by (simp add: toInputPeer_def Let_def example_store_fields TLInputPeer_new_def)

subsection \<open>C5: keys of channel messages\<close>

text \<open>
  C5. channelMessageToKey(c, m) is (c << 32) | m as a 64-bit value, and distinct pairs
  of a channel id and a message id have distinct keys. processData stores a message
  addressed to a channel under this key in the map of channel messages and leaves the
  map of plain-chat messages alone; it stores any other message under its bare id in the
  map of plain-chat messages and leaves the map of channel messages alone. getMessage
  reads the map of channel messages at this key for a channel peer and the map of
  plain-chat messages at the bare id for any other peer, so ingesting a message of one
  kind never changes what getMessage returns for a peer of the other kind.
\<close>

theorem channelMessageToKey_namespaces:
  "channelMessageToKey c m = push_bit 32 (ucast c) OR ucast m
   \<and> (channelMessageToKey c m = channelMessageToKey c' m' \<longleftrightarrow> c = c' \<and> m = m')
   \<and> (TLPeer_tlType (TLMessage_toId msg) = PeerChannel \<longrightarrow>
        m_channelMessages (processData_TLMessage d msg) =
          (m_channelMessages d)
            (channelMessageToKey (TLPeer_channelId (TLMessage_toId msg)) (TLMessage_id msg) \<mapsto> msg)
        \<and> m_clientMessages (processData_TLMessage d msg) = m_clientMessages d
        \<and> (Peer_type peer \<noteq> Channel \<longrightarrow>
             getMessage (processData_TLMessage d msg) out peer mid = getMessage d out peer mid))
   \<and> (TLPeer_tlType (TLMessage_toId msg) \<noteq> PeerChannel \<longrightarrow>
        m_clientMessages (processData_TLMessage d msg) =
          (m_clientMessages d)(TLMessage_id msg \<mapsto> msg)
        \<and> m_channelMessages (processData_TLMessage d msg) = m_channelMessages d
        \<and> (Peer_type peer = Channel \<longrightarrow>
             getMessage (processData_TLMessage d msg) out peer mid = getMessage d out peer mid))
   \<and> (Peer_type peer = Channel \<longrightarrow>
        fst (getMessage d out peer mid) =
          (m_channelMessages d (channelMessageToKey (Peer_id peer) mid) \<noteq> None))
   \<and> (Peer_type peer \<noteq> Channel \<longrightarrow>
        fst (getMessage d out peer mid) = (m_clientMessages d mid \<noteq> None))"
proof (intro conjI impI)
  show "channelMessageToKey c m = push_bit 32 (ucast c) OR ucast m"
    by (rule channelMessageToKey_or)
  show "(channelMessageToKey c m = channelMessageToKey c' m') = (c = c' \<and> m = m')"
    by (rule channelMessageToKey_inj)
next
  assume ch: "TLPeer_tlType (TLMessage_toId msg) = PeerChannel"
  show "m_channelMessages (processData_TLMessage d msg) =
          (m_channelMessages d)
            (channelMessageToKey (TLPeer_channelId (TLMessage_toId msg)) (TLMessage_id msg) \<mapsto> msg)"
    by (simp add: processData_TLMessage_channel [OF ch])
  show "m_clientMessages (processData_TLMessage d msg) = m_clientMessages d"
    by (simp add: processData_TLMessage_channel [OF ch])
  assume "Peer_type peer \<noteq> Channel"
  then show "getMessage (processData_TLMessage d msg) out peer mid = getMessage d out peer mid"
    by (simp add: processData_TLMessage_channel [OF ch] getMessage_def)
next
  assume pl: "TLPeer_tlType (TLMessage_toId msg) \<noteq> PeerChannel"
  show "m_clientMessages (processData_TLMessage d msg) =
          (m_clientMessages d)(TLMessage_id msg \<mapsto> msg)"
    by (simp add: processData_TLMessage_plain [OF pl])
  show "m_channelMessages (processData_TLMessage d msg) = m_channelMessages d"
    by (simp add: processData_TLMessage_plain [OF pl])
  assume "Peer_type peer = Channel"
  then show "getMessage (processData_TLMessage d msg) out peer mid = getMessage d out peer mid"
    by (simp add: processData_TLMessage_plain [OF pl] getMessage_def)
next
  assume "Peer_type peer = Channel"
  then show "fst (getMessage d out peer mid) =
          (m_channelMessages d (channelMessageToKey (Peer_id peer) mid) \<noteq> None)"
    by (simp add: getMessage_def Let_def split: option.splits)
next
  assume "Peer_type peer \<noteq> Channel"
  then show "fst (getMessage d out peer mid) = (m_clientMessages d mid \<noteq> None)"
    by (simp add: getMessage_def Let_def split: option.splits)
qed

text \<open>
  On the concrete store: the channel message 3 of channel 9 and the plain message 3 live
  side by side; ingesting either leaves the other map, and the lookups through it, as
  they were.
\<close>

theorem channelMessageToKey_namespaces_witness:
  "channelMessageToKey 9 3 = 0x900000003
   \<and> channelMessageToKey 0 3 \<noteq> channelMessageToKey 9 3
   \<and> TLPeer_tlType (TLMessage_toId example_channel_message) = PeerChannel
   \<and> Peer_type \<lparr>Peer_type = User, Peer_id = 7\<rparr> \<noteq> Channel
   \<and> m_clientMessages (processData_TLMessage example_store example_channel_message)
       = m_clientMessages example_store
   \<and> getMessage (processData_TLMessage example_store example_channel_message) example_out_message
         \<lparr>Peer_type = User, Peer_id = 7\<rparr> 3
       = getMessage example_store example_out_message \<lparr>Peer_type = User, Peer_id = 7\<rparr> 3
   \<and> TLPeer_tlType (TLMessage_toId example_plain_message) \<noteq> PeerChannel
   \<and> Peer_type \<lparr>Peer_type = Channel, Peer_id = 9\<rparr> = Channel
   \<and> m_channelMessages (processData_TLMessage example_store example_plain_message)
       = m_channelMessages example_store
   \<and> getMessage (processData_TLMessage example_store example_plain_message) example_out_message
         \<lparr>Peer_type = Channel, Peer_id = 9\<rparr> 3
       = getMessage example_store example_out_message \<lparr>Peer_type = Channel, Peer_id = 9\<rparr> 3
   \<and> fst (getMessage example_store example_out_message \<lparr>Peer_type = Channel, Peer_id = 9\<rparr> 3)
   \<and> \<not> fst (getMessage example_store example_out_message \<lparr>Peer_type = Channel, Peer_id = 0\<rparr> 3)
   \<and> fst (getMessage example_store example_out_message \<lparr>Peer_type = User, Peer_id = 7\<rparr> 3)"
  using channelMessageToKey_namespaces [of 0 3 9 3 example_channel_message example_store
          "\<lparr>Peer_type = User, Peer_id = 7\<rparr>" example_out_message 3]
        channelMessageToKey_namespaces [of 9 3 9 3 example_plain_message example_store
          "\<lparr>Peer_type = Channel, Peer_id = 9\<rparr>" example_out_message 3]
        channelMessageToKey_namespaces [of 9 3 9 3 example_plain_message example_store
          "\<lparr>Peer_type = Channel, Peer_id = 0\<rparr>" example_out_message 3]
  by (simp add: example_key example_store_fields example_channel_message_def
        example_plain_message_def channelMessageToKey_def)

subsection \<open>C6: the self user\<close>

text \<open>
  C6. After processData of a user record with the self flag set, the stored self user
  id is the id of that record and the record is stored under its id. When a different
  non-zero self user id was stored before, exactly one warning is written; otherwise
  none. In both cases the call completes with the new state.
\<close>

theorem processData_TLUser_self:
  "TLUser_self user \<Longrightarrow>
     m_selfUserId (fst (processData_TLUser d user)) = TLUser_id user
     \<and> m_users (fst (processData_TLUser d user)) (TLUser_id user) = Some user
     \<and> (m_selfUserId d \<noteq> 0 \<and> m_selfUserId d \<noteq> TLUser_id user \<longrightarrow>
          snd (processData_TLUser d user) = [(QtWarningMsg, ''Got self user with different id.'')])
     \<and> (m_selfUserId d = 0 \<or> m_selfUserId d = TLUser_id user \<longrightarrow>
          snd (processData_TLUser d user) = [])"
  by (simp add: processData_TLUser_store processData_TLUser_log)

text \<open>
  On the concrete store, whose self user is 5: the self-flagged user 6 replaces it with
  a warning, the self-flagged user 5 is ingested without one.
\<close>

theorem processData_TLUser_self_witness:
  "TLUser_self example_other_self_user
   \<and> m_selfUserId example_store \<noteq> 0
   \<and> m_selfUserId example_store \<noteq> TLUser_id example_other_self_user
   \<and> m_selfUserId (fst (processData_TLUser example_store example_other_self_user)) = 6
   \<and> m_users (fst (processData_TLUser example_store example_other_self_user)) 6
       = Some example_other_self_user
   \<and> snd (processData_TLUser example_store example_other_self_user)
       = [(QtWarningMsg, ''Got self user with different id.'')]
   \<and> TLUser_self example_self_user
   \<and> m_selfUserId example_store = TLUser_id example_self_user
   \<and> m_selfUserId (fst (processData_TLUser example_store example_self_user)) = 5
   \<and> snd (processData_TLUser example_store example_self_user) = []"
  using processData_TLUser_self [of example_other_self_user example_store]
        processData_TLUser_self [of example_self_user example_store]
  by (simp add: TLUser_self_def example_other_self_user_def example_self_user_def
        example_store_fields)

subsection \<open>C7: ingest is an idempotent upsert\<close>

text \<open>
  C7. For a user, a chat and a message: after processData the store maps the record's
  key to the record, whether or not the key was there; no entry under another key and
  no other map is changed; and processData of the same record a second time leaves the
  store as the first left it. (For a user the stored self user id is part of the store:
  it becomes the user's id when the record has the self flag, and the second call finds
  it already so.)
\<close>

theorem processData_upsert:
  "m_users (fst (processData_TLUser d user)) (TLUser_id user) = Some user
   \<and> (\<forall>k. k \<noteq> TLUser_id user \<longrightarrow> m_users (fst (processData_TLUser d user)) k = m_users d k)
   \<and> m_chats (fst (processData_TLUser d user)) = m_chats d
   \<and> m_clientMessages (fst (processData_TLUser d user)) = m_clientMessages d
   \<and> m_channelMessages (fst (processData_TLUser d user)) = m_channelMessages d
   \<and> m_dialogs (fst (processData_TLUser d user)) = m_dialogs d
   \<and> fst (processData_TLUser (fst (processData_TLUser d user)) user) = fst (processData_TLUser d user)
   \<and> processData_TLChat d chat = d\<lparr>m_chats := (m_chats d)(TLChat_id chat \<mapsto> chat)\<rparr>
   \<and> m_chats (processData_TLChat d chat) (TLChat_id chat) = Some chat
   \<and> (\<forall>k. k \<noteq> TLChat_id chat \<longrightarrow> m_chats (processData_TLChat d chat) k = m_chats d k)
   \<and> processData_TLChat (processData_TLChat d chat) chat = processData_TLChat d chat
   \<and> (TLPeer_tlType (TLMessage_toId msg) = PeerChannel \<longrightarrow>
        processData_TLMessage d msg =
          d\<lparr>m_channelMessages := (m_channelMessages d)
               (channelMessageToKey (TLPeer_channelId (TLMessage_toId msg)) (TLMessage_id msg) \<mapsto> msg)\<rparr>)
   \<and> (TLPeer_tlType (TLMessage_toId msg) \<noteq> PeerChannel \<longrightarrow>
        processData_TLMessage d msg =
          d\<lparr>m_clientMessages := (m_clientMessages d)(TLMessage_id msg \<mapsto> msg)\<rparr>)
   \<and> processData_TLMessage (processData_TLMessage d msg) msg = processData_TLMessage d msg"
proof (intro conjI allI impI)
  show "fst (processData_TLUser (fst (processData_TLUser d user)) user) = fst (processData_TLUser d user)"
    by (simp add: processData_TLUser_store)
  show "processData_TLChat (processData_TLChat d chat) chat = processData_TLChat d chat"
    by (simp add: processData_TLChat_eq)
  show "processData_TLMessage (processData_TLMessage d msg) msg = processData_TLMessage d msg"
    by (cases "TLPeer_tlType (TLMessage_toId msg) = PeerChannel")
       (simp_all add: processData_TLMessage_channel processData_TLMessage_plain)
qed (simp_all add: processData_TLUser_store processData_TLChat_eq
       processData_TLMessage_channel processData_TLMessage_plain)

text \<open>
  On the concrete store: the new user 6 leaves user 5 in place, the channel 9 and the
  channel message 3 are replaced by their new values, and the new plain message 4 leaves
  the plain message 3 in place.
\<close>

theorem processData_upsert_witness:
  "(5 :: quint32) \<noteq> TLUser_id example_other_self_user
   \<and> m_users (fst (processData_TLUser example_store example_other_self_user)) 5
       = Some example_self_user
   \<and> m_users (fst (processData_TLUser example_store example_other_self_user)) 6
       = Some example_other_self_user
   \<and> (8 :: quint32) \<noteq> TLChat_id example_channel
   \<and> m_chats (processData_TLChat example_store example_channel) 8 = None
   \<and> m_chats (processData_TLChat example_store (example_channel\<lparr>TLChat_accessHash := 1\<rparr>)) 9
       = Some \<lparr>TLChat_id = 9, TLChat_accessHash = 1\<rparr>
   \<and> TLPeer_tlType (TLMessage_toId example_channel_message) = PeerChannel
   \<and> m_channelMessages (processData_TLMessage example_store
         (example_channel_message\<lparr>TLMessage_message := ''edited''\<rparr>)) 0x900000003
       = Some (example_channel_message\<lparr>TLMessage_message := ''edited''\<rparr>)
   \<and> TLPeer_tlType (TLMessage_toId example_plain_message) \<noteq> PeerChannel
   \<and> m_clientMessages (processData_TLMessage example_store
         (example_plain_message\<lparr>TLMessage_id := 4\<rparr>)) 4
       = Some (example_plain_message\<lparr>TLMessage_id := 4\<rparr>)
   \<and> m_clientMessages (processData_TLMessage example_store
         (example_plain_message\<lparr>TLMessage_id := 4\<rparr>)) 3
       = Some example_plain_message"
  using processData_upsert [of example_store example_other_self_user example_channel
          "example_channel_message\<lparr>TLMessage_message := ''edited''\<rparr>"]
        processData_upsert [of example_store example_other_self_user
          "example_channel\<lparr>TLChat_accessHash := 1\<rparr>"
          "example_plain_message\<lparr>TLMessage_id := 4\<rparr>"]
  by (simp add: example_store_fields example_other_self_user_def example_channel_def
        example_channel_message_def example_plain_message_def channelMessageToKey_def)

subsection \<open>C8: lookups\<close>

text \<open>
  C8. getUserInfo, getChatInfo, getDialogInfo and getMessage return false for an id
  (a peer, for a dialog) that the store does not hold, leave the out-parameter as it
  was and write one debug line; when the store holds it they return true, write
  nothing, and the out-parameter holds the stored user, chat or dialog (the first
  dialog of that peer), or for getMessage the fields of the stored message.
\<close>

theorem lookups_soft_failure:
  "(m_users d userId = None \<longrightarrow>
      getUserInfo d userInfo userId = (False, userInfo, [(QtDebugMsg, ''Unknown user'')]))
   \<and> (m_users d userId = Some user \<longrightarrow> getUserInfo d userInfo userId = (True, user, []))
   \<and> (m_chats d chatId = None \<longrightarrow>
      getChatInfo d chatInfo chatId = (False, chatInfo, [(QtDebugMsg, ''Unknown user'')]))
   \<and> (m_chats d chatId = Some chat \<longrightarrow> getChatInfo d chatInfo chatId = (True, chat, []))
   \<and> ((\<forall>dialog \<in> set (TLMessagesDialogs_dialogs (m_dialogs d)).
          toPublicPeer (TLDialog_peer dialog) \<noteq> peer) \<longrightarrow>
      getDialogInfo d dialogInfo peer = (False, dialogInfo, [(QtDebugMsg, ''Unknown dialog'')]))
   \<and> (find (\<lambda>dialog. toPublicPeer (TLDialog_peer dialog) = peer)
          (TLMessagesDialogs_dialogs (m_dialogs d)) = Some dialog \<longrightarrow>
      getDialogInfo d dialogInfo peer = (True, dialog, []))
   \<and> ((if Peer_type peer = Channel
        then m_channelMessages d (channelMessageToKey (Peer_id peer) messageId)
        else m_clientMessages d messageId) = None \<longrightarrow>
      getMessage d message peer messageId = (False, message, [(QtDebugMsg, ''Unknown message'')]))
   \<and> ((if Peer_type peer = Channel
        then m_channelMessages d (channelMessageToKey (Peer_id peer) messageId)
        else m_clientMessages d messageId) = Some m \<longrightarrow>
      getMessage d message peer messageId =
        (True,
         message\<lparr>Message_type := MessageTypeText,
                 Message_fromId := TLMessage_fromId m,
                 Message_timestamp := TLMessage_date m,
                 Message_text := TLMessage_message m,
                 Message_flags :=
                   (if TLMessage_out m then {MessageFlagOut} else {}) \<union>
                   (if TLMessage_FwdFrom \<in> TLMessage_flags m then {MessageFlagForwarded} else {})\<rparr>,
         []))"
proof (intro conjI impI)
  assume "\<forall>dialog \<in> set (TLMessagesDialogs_dialogs (m_dialogs d)).
          toPublicPeer (TLDialog_peer dialog) \<noteq> peer"
  then have "find (\<lambda>dialog. toPublicPeer (TLDialog_peer dialog) = peer)
          (TLMessagesDialogs_dialogs (m_dialogs d)) = None"
    by (simp add: find_None_iff)
  then show "getDialogInfo d dialogInfo peer = (False, dialogInfo, [(QtDebugMsg, ''Unknown dialog'')])"
    by (simp add: getDialogInfo_def getDialogInfo_loop_find)
next
  assume "find (\<lambda>dialog. toPublicPeer (TLDialog_peer dialog) = peer)
          (TLMessagesDialogs_dialogs (m_dialogs d)) = Some dialog"
  then show "getDialogInfo d dialogInfo peer = (True, dialog, [])"
    by (simp add: getDialogInfo_def getDialogInfo_loop_find)
next
  assume "(if Peer_type peer = Channel
        then m_channelMessages d (channelMessageToKey (Peer_id peer) messageId)
        else m_clientMessages d messageId) = Some m"
  then show "getMessage d message peer messageId =
        (True,
         message\<lparr>Message_type := MessageTypeText,
                 Message_fromId := TLMessage_fromId m,
                 Message_timestamp := TLMessage_date m,
                 Message_text := TLMessage_message m,
                 Message_flags :=
                   (if TLMessage_out m then {MessageFlagOut} else {}) \<union>
                   (if TLMessage_FwdFrom \<in> TLMessage_flags m then {MessageFlagForwarded} else {})\<rparr>,
         [])"
    by (simp add: getMessage_def Let_def MessageFlagNone_def)
qed (simp_all add: getUserInfo_def getChatInfo_def getMessage_def Let_def)

text \<open>
  On the concrete store: the user 8, the chat 8, the dialog with user 7 and the plain
  message 4 are missing; the user 5, the chat 9, the dialog with channel 9, the plain
  message 3 and the channel message 3 are found.
\<close>

theorem lookups_soft_failure_witness:
  "m_users example_store 8 = None
   \<and> getUserInfo example_store example_user 8 = (False, example_user, [(QtDebugMsg, ''Unknown user'')])
   \<and> m_users example_store 5 = Some example_self_user
   \<and> getUserInfo example_store example_user 5 = (True, example_self_user, [])
   \<and> m_chats example_store 8 = None
   \<and> getChatInfo example_store example_channel 8 = (False, example_channel, [(QtDebugMsg, ''Unknown user'')])
   \<and> m_chats example_store 9 = Some example_channel
   \<and> getChatInfo example_store \<lparr>TLChat_id = 0, TLChat_accessHash = 0\<rparr> 9 = (True, example_channel, [])
   \<and> toPublicPeer (TLDialog_peer example_dialog) \<noteq> \<lparr>Peer_type = User, Peer_id = 7\<rparr>
   \<and> getDialogInfo example_store (example_dialog\<lparr>TLDialog_topMessage := 0\<rparr>)
         \<lparr>Peer_type = User, Peer_id = 7\<rparr>
       = (False, example_dialog\<lparr>TLDialog_topMessage := 0\<rparr>, [(QtDebugMsg, ''Unknown dialog'')])
   \<and> toPublicPeer (TLDialog_peer example_dialog) = \<lparr>Peer_type = Channel, Peer_id = 9\<rparr>
   \<and> getDialogInfo example_store (example_dialog\<lparr>TLDialog_topMessage := 0\<rparr>)
         \<lparr>Peer_type = Channel, Peer_id = 9\<rparr>
       = (True, example_dialog, [])
   \<and> m_clientMessages example_store 4 = None
   \<and> getMessage example_store example_out_message \<lparr>Peer_type = User, Peer_id = 7\<rparr> 4
       = (False, example_out_message, [(QtDebugMsg, ''Unknown message'')])
   \<and> m_clientMessages example_store 3 = Some example_plain_message
   \<and> getMessage example_store example_out_message \<lparr>Peer_type = User, Peer_id = 7\<rparr> 3
       = (True,
          \<lparr>Message_type = MessageTypeText, Message_fromId = 5, Message_timestamp = 1000,
           Message_text = ''hello'', Message_flags = {MessageFlagOut},
           Message_forwardFromPeer = \<lparr>Peer_type = User, Peer_id = 0\<rparr>\<rparr>, [])
   \<and> m_channelMessages example_store (channelMessageToKey 9 3) = Some example_channel_message
   \<and> fst (getMessage example_store example_out_message \<lparr>Peer_type = Channel, Peer_id = 9\<rparr> 3)"
  using lookups_soft_failure [of example_store 8 example_user _ 8 example_channel _
          "\<lparr>Peer_type = User, Peer_id = 7\<rparr>" "example_dialog\<lparr>TLDialog_topMessage := 0\<rparr>" _
          4 example_out_message]
        lookups_soft_failure [of example_store 5 example_user example_self_user
          9 "\<lparr>TLChat_id = 0, TLChat_accessHash = 0\<rparr>" example_channel
          "\<lparr>Peer_type = Channel, Peer_id = 9\<rparr>" "example_dialog\<lparr>TLDialog_topMessage := 0\<rparr>"
          example_dialog 3 example_out_message example_channel_message]
        lookups_soft_failure [of example_store 5 example_user example_self_user
          9 "\<lparr>TLChat_id = 0, TLChat_accessHash = 0\<rparr>" example_channel
          "\<lparr>Peer_type = User, Peer_id = 7\<rparr>" "example_dialog\<lparr>TLDialog_topMessage := 0\<rparr>"
          example_dialog 3 example_out_message example_plain_message]
  by (simp add: example_store_fields toPublicPeer_def example_dialog_def
        example_out_message_def example_plain_message_def TLMessage_out_def
        channelMessageToKey_def)

subsection \<open>C9: the hash of a ConnectionSpec\<close>

text \<open>
  C9. The hash of a ConnectionSpec is Qt's hash, under the seed, of dcId | (flags << 20)
  as a 32-bit value; two specs compare equal exactly when their dcId and their flags
  are equal; and specs that compare equal have equal hashes under every seed.
\<close>

theorem qHash_ConnectionSpec_consistent:
  "qHash_ConnectionSpec qHash_uint key seed = qHash_uint (dcId key OR push_bit 20 (flags key)) seed
   \<and> (ConnectionSpec_equals a b \<longleftrightarrow> dcId a = dcId b \<and> flags a = flags b)
   \<and> (ConnectionSpec_equals a b \<longrightarrow>
        qHash_ConnectionSpec qHash_uint a seed = qHash_ConnectionSpec qHash_uint b seed)"
  by (auto simp: qHash_ConnectionSpec_def ConnectionSpec_equals_def)

text \<open>
  The spec of DC 2 with the flag MediaOnly (1 << 3) equals the spec written out with
  flags 8, and both hash to 2 | (8 << 20) = 0x800002 under the seed 0 of the stand-in
  hash.
\<close>

theorem qHash_ConnectionSpec_consistent_witness:
  "ConnectionSpec_equals example_spec \<lparr>dcId = 2, flags = 8\<rparr>
   \<and> qHash_ConnectionSpec example_qHash example_spec 0 = 0x800002
   \<and> qHash_ConnectionSpec example_qHash \<lparr>dcId = 2, flags = 8\<rparr> 0 = 0x800002"
  using qHash_ConnectionSpec_consistent
          [of example_qHash example_spec 0 example_spec "\<lparr>dcId = 2, flags = 8\<rparr>"]
  by (simp add: example_spec_def example_qHash_def RequestFlag_MediaOnly_def
        ConnectionSpec_equals_def)

subsection \<open>C10: a forwarded message\<close>

text \<open>
  C10. For a stored message with the FwdFrom flag, getMessage returns true with the
  Forwarded flag set on the returned Message, and the forward-from peer of the Message
  is what it was when the Message was passed in (so the default of a fresh Message),
  whether or not the forward header has its FromId flag; the type, fromId, timestamp
  and text are written from the stored message, and the Out flag is set exactly when
  the stored message is outgoing.
\<close>

theorem getMessage_forwarded:
  "(if Peer_type peer = Channel
    then m_channelMessages d (channelMessageToKey (Peer_id peer) messageId)
    else m_clientMessages d messageId) = Some m \<Longrightarrow>
   TLMessage_FwdFrom \<in> TLMessage_flags m \<Longrightarrow>
   (case getMessage d message peer messageId of
      (found, result, logged) \<Rightarrow>
        found
        \<and> MessageFlagForwarded \<in> Message_flags result
        \<and> Message_forwardFromPeer result = Message_forwardFromPeer message
        \<and> Message_type result = MessageTypeText
        \<and> Message_fromId result = TLMessage_fromId m
        \<and> Message_timestamp result = TLMessage_date m
        \<and> Message_text result = TLMessage_message m
        \<and> (MessageFlagOut \<in> Message_flags result \<longleftrightarrow> TLMessage_out m))"
  by (simp add: getMessage_def Let_def MessageFlagNone_def)

text \<open>
  On the concrete store: the channel message 3 of channel 9 is forwarded and its header
  has the FromId flag; getMessage fills in the Message and leaves the forward-from peer
  at the value the fresh Message had.
\<close>

theorem getMessage_forwarded_witness:
  "m_channelMessages example_store (channelMessageToKey 9 3) = Some example_channel_message
   \<and> TLMessage_FwdFrom \<in> TLMessage_flags example_channel_message
   \<and> TLMessageFwdHeader_FromId \<in> TLMessageFwdHeader_flags (TLMessage_fwdFrom example_channel_message)
   \<and> getMessage example_store example_out_message \<lparr>Peer_type = Channel, Peer_id = 9\<rparr> 3
       = (True,
          \<lparr>Message_type = MessageTypeText, Message_fromId = 7, Message_timestamp = 2000,
           Message_text = ''forwarded'', Message_flags = {MessageFlagForwarded},
           Message_forwardFromPeer = \<lparr>Peer_type = User, Peer_id = 0\<rparr>\<rparr>, [])
   \<and> Message_forwardFromPeer example_out_message = \<lparr>Peer_type = User, Peer_id = 0\<rparr>"
  using getMessage_forwarded [of "\<lparr>Peer_type = Channel, Peer_id = 9\<rparr>" example_store 3
          example_channel_message example_out_message]
  by (simp add: example_store_fields example_channel_message_def example_out_message_def
        channelMessageToKey_def getMessage_def Let_def MessageFlagNone_def TLMessage_out_def)

end
